theory Spec2Isabelle
  imports Complex_Main
begin

section \<open>Python values\<close>

text \<open>
  The harness (\<^verbatim>\<open>src/harness/sfwa_harness.py\<close>) moves JSON data around without
  looking at its type: the payload of the external checker is whatever \<^verbatim>\<open>json.loads\<close>
  returns, and \<^verbatim>\<open>CheckResult\<close> stores it unchanged. \<open>pyval\<close> is the type of these
  values. A dictionary is an association list in insertion order with \<^verbatim>\<open>dict.get\<close> as
  \<open>map_of\<close>. A float is idealised as a real number: the harness only tests a number
  for zero.
\<close>

datatype pyval =
    PyNone
  | PyBool bool
  | PyInt int
  | PyFloat real
  | PyStr string
  | PyList "pyval list"
  | PyTuple "pyval list"
  | PyDict "(string \<times> pyval) list"

text \<open>Truth value testing, as \<^verbatim>\<open>bool(x)\<close>, \<^verbatim>\<open>x or y\<close> and \<^verbatim>\<open>if not x\<close> do it.\<close>

fun truthy :: "pyval \<Rightarrow> bool" where
  "truthy PyNone = False"
| "truthy (PyBool b) = b"
| "truthy (PyInt i) = (i \<noteq> 0)"
| "truthy (PyFloat x) = (x \<noteq> 0)"
| "truthy (PyStr s) = (s \<noteq> [])"
| "truthy (PyList xs) = (xs \<noteq> [])"
| "truthy (PyTuple xs) = (xs \<noteq> [])"
| "truthy (PyDict kvs) = (kvs \<noteq> [])"

text \<open>\<^verbatim>\<open>d.get(k)\<close>: the value stored under \<open>k\<close>, \<^verbatim>\<open>None\<close> when there is none.\<close>

definition dict_get :: "(string \<times> pyval) list \<Rightarrow> string \<Rightarrow> pyval" where
  "dict_get kvs k = (case map_of kvs k of None \<Rightarrow> PyNone | Some v \<Rightarrow> v)"

text \<open>\<^verbatim>\<open>d[k] = v\<close>: replaces the value in place, or appends a new item.\<close>

fun dict_set :: "(string \<times> pyval) list \<Rightarrow> string \<Rightarrow> pyval \<Rightarrow> (string \<times> pyval) list" where
  "dict_set [] k v = [(k, v)]"
| "dict_set ((k', v') # kvs) k v = (if k' = k then (k, v) # kvs else (k', v') # dict_set kvs k v)"

section \<open>Strings\<close>

text \<open>
  A string is a \<open>char list\<close>, each character a code point below 256; text with other
  characters is outside the model. \<open>SQ\<close> is the apostrophe and \<open>NL\<close> the line feed,
  which cannot be written inside a string literal.
\<close>

abbreviation (input) SQ :: char where "SQ \<equiv> CHR 0x27"
abbreviation (input) NL :: char where "NL \<equiv> CHR 0x0A"

text \<open>\<^verbatim>\<open>sep.join(xs)\<close>\<close>

fun join :: "string \<Rightarrow> string list \<Rightarrow> string" where
  "join sep [] = []"
| "join sep [x] = x"
| "join sep (x # y # ys) = x @ sep @ join sep (y # ys)"

text \<open>
  \<^verbatim>\<open>s.strip()\<close> removes leading and trailing whitespace. Below 256 the whitespace
  characters of a Python string are the codes 9 to 13, 28 to 32, 133 and 160.
\<close>

definition is_space :: "char \<Rightarrow> bool" where
  "is_space c = (let n = (of_char c :: nat) in
     (9 \<le> n \<and> n \<le> 13) \<or> (28 \<le> n \<and> n \<le> 32) \<or> n = 133 \<or> n = 160)"

definition strip :: "string \<Rightarrow> string" where
  "strip s = rev (dropWhile is_space (rev (dropWhile is_space s)))"

text \<open>\<^verbatim>\<open>str(n)\<close> for a natural number: its decimal digits.\<close>

fun str_nat :: "nat \<Rightarrow> string" where
  "str_nat n = (if n < 10 then [char_of (48 + n)] else str_nat (n div 10) @ [char_of (48 + n mod 10)])"

section \<open>The document tree and its XPath queries\<close>

text \<open>
  \<^verbatim>\<open>lxml_html.fromstring\<close> returns an element of a parsed tree, and \<^verbatim>\<open>doc.xpath(q)\<close>
  with a query that starts with \<^verbatim>\<open>//\<close> searches that tree from its root, whichever
  element the call is made on. \<open>element\<close> is the whole tree: the tag, the attributes
  (\<^verbatim>\<open>attrib\<close>) and the child elements in document order. Text, comments and
  processing instructions are left out: no query of the harness looks at them.
\<close>

datatype element = Element (tag: string) (attrib: "(string \<times> string) list") (children: "element list")

text \<open>The elements of the tree in document order, the root first: what \<^verbatim>\<open>//*\<close> selects.\<close>

fun iter :: "element \<Rightarrow> element list" where
  "iter (Element t a cs) = Element t a cs # concat (map iter cs)"

text \<open>\<^verbatim>\<open>el.get(name)\<close>\<close>

definition attr :: "element \<Rightarrow> string \<Rightarrow> string option" where
  "attr e n = map_of (attrib e) n"

text \<open>
  The harness builds every query as a string, three of them by pasting spec text between
  fixed pieces, and the library parses that string again. The model therefore has a
  parser: it reads the location paths the harness can produce from well-formed text,

  \<^verbatim>\<open>//T\<close>, \<^verbatim>\<open>//T[@N]\<close>, \<^verbatim>\<open>//T[@N=L]\<close>, \<^verbatim>\<open>//T[translate(@N,L,L)=L]\<close>

  where \<open>T\<close> is \<^verbatim>\<open>*\<close> or a name, \<open>N\<close> a name and \<open>L\<close> a literal in single or double
  quotes, which ends at the next quote of its kind (XPath 1.0 has no escape). Any other
  string is answered with \<open>XPathEvalError\<close>, the exception \<^verbatim>\<open>doc.xpath\<close> raises for a
  string that is no XPath expression. The library's language is larger than these four
  forms, so the statements below that depend on the answer to a query constrain the
  pasted text to stay inside them. Before it parses, the library refuses a string with a
  control character other than tab, line feed and carriage return (\<open>ValueError\<close>).
\<close>

datatype exn = XPathEvalError | ValueError | AttributeError | TypeError

definition xml_char :: "char \<Rightarrow> bool" where
  "xml_char c = (let n = (of_char c :: nat) in n = 9 \<or> n = 10 \<or> n = 13 \<or> 32 \<le> n)"

datatype name_test = AnyName | Name string

datatype predicate =
    HasAttr string
  | AttrEq string string
  | TranslateAttrEq string string string string

datatype xpath_expr = Descendants name_test "predicate option"

definition is_name_start :: "char \<Rightarrow> bool" where
  "is_name_start c = (let n = (of_char c :: nat) in
     (65 \<le> n \<and> n \<le> 90) \<or> (97 \<le> n \<and> n \<le> 122) \<or> n = 95)"

definition is_name_char :: "char \<Rightarrow> bool" where
  "is_name_char c = (let n = (of_char c :: nat) in
     is_name_start c \<or> (48 \<le> n \<and> n \<le> 57) \<or> n = 45 \<or> n = 46)"

fun take_name :: "string \<Rightarrow> (string \<times> string) option" where
  "take_name [] = None"
| "take_name (c # cs) =
     (if is_name_start c then Some (c # takeWhile is_name_char cs, dropWhile is_name_char cs)
      else None)"

fun take_literal :: "string \<Rightarrow> (string \<times> string) option" where
  "take_literal [] = None"
| "take_literal (q # cs) =
     (if q = SQ \<or> q = CHR 0x22 then
        (case dropWhile (\<lambda>c. c \<noteq> q) cs of
           [] \<Rightarrow> None
         | _ # rest \<Rightarrow> Some (takeWhile (\<lambda>c. c \<noteq> q) cs, rest))
      else None)"

definition expect :: "string \<Rightarrow> string \<Rightarrow> string option" where
  "expect p s = (if take (length p) s = p then Some (drop (length p) s) else None)"

definition parse_attr_predicate :: "string \<Rightarrow> predicate option" where
  "parse_attr_predicate s =
     (case take_name s of
        None \<Rightarrow> None
      | Some (n, r1) \<Rightarrow>
          if r1 = '']'' then Some (HasAttr n)
          else (case expect ''='' r1 of
                  None \<Rightarrow> None
                | Some r2 \<Rightarrow>
                    (case take_literal r2 of
                       None \<Rightarrow> None
                     | Some (v, r3) \<Rightarrow> if r3 = '']'' then Some (AttrEq n v) else None)))"

definition parse_translate_predicate :: "string \<Rightarrow> predicate option" where
  "parse_translate_predicate s =
     (case take_name s of
        None \<Rightarrow> None
      | Some (n, r1) \<Rightarrow>
     (case expect '','' r1 of
        None \<Rightarrow> None
      | Some r2 \<Rightarrow>
     (case take_literal r2 of
        None \<Rightarrow> None
      | Some (f, r3) \<Rightarrow>
     (case expect '','' r3 of
        None \<Rightarrow> None
      | Some r4 \<Rightarrow>
     (case take_literal r4 of
        None \<Rightarrow> None
      | Some (t, r5) \<Rightarrow>
     (case expect '')='' r5 of
        None \<Rightarrow> None
      | Some r6 \<Rightarrow>
     (case take_literal r6 of
        None \<Rightarrow> None
      | Some (v, r7) \<Rightarrow> if r7 = '']'' then Some (TranslateAttrEq n f t v) else None)))))))"

definition parse_predicate :: "string \<Rightarrow> predicate option" where
  "parse_predicate s =
     (case expect ''@'' s of
        Some r \<Rightarrow> parse_attr_predicate r
      | None \<Rightarrow>
          (case expect ''translate(@'' s of
             Some r \<Rightarrow> parse_translate_predicate r
           | None \<Rightarrow> None))"

definition parse_name_test :: "string \<Rightarrow> (name_test \<times> string) option" where
  "parse_name_test s =
     (case expect ''*'' s of
        Some r \<Rightarrow> Some (AnyName, r)
      | None \<Rightarrow> (case take_name s of None \<Rightarrow> None | Some (n, r) \<Rightarrow> Some (Name n, r)))"

definition parse_xpath :: "string \<Rightarrow> xpath_expr option" where
  "parse_xpath q =
     (case expect ''//'' q of
        None \<Rightarrow> None
      | Some r \<Rightarrow>
          (case parse_name_test r of
             None \<Rightarrow> None
           | Some (nt, r1) \<Rightarrow>
               if r1 = [] then Some (Descendants nt None)
               else (case expect ''['' r1 of
                       None \<Rightarrow> None
                     | Some r2 \<Rightarrow>
                         (case parse_predicate r2 of
                            None \<Rightarrow> None
                          | Some p \<Rightarrow> Some (Descendants nt (Some p))))))"

text \<open>
  The XPath function \<^verbatim>\<open>translate(s, from, to)\<close>: a character of \<open>s\<close> that occurs in
  \<open>from\<close> is replaced by the character at the same position of \<open>to\<close>, or dropped when
  \<open>to\<close> is too short; the first occurrence in \<open>from\<close> counts.
\<close>

fun translate_char :: "string \<Rightarrow> string \<Rightarrow> char \<Rightarrow> string" where
  "translate_char [] ts c = [c]"
| "translate_char (f # fs) [] c = (if c = f then [] else translate_char fs [] c)"
| "translate_char (f # fs) (t # ts) c = (if c = f then [t] else translate_char fs ts c)"

definition translate :: "string \<Rightarrow> string \<Rightarrow> string \<Rightarrow> string" where
  "translate s from to = concat (map (translate_char from to) s)"

fun matches_test :: "name_test \<Rightarrow> element \<Rightarrow> bool" where
  "matches_test AnyName e = True"
| "matches_test (Name n) e = (tag e = n)"

text \<open>
  A predicate on an element. Comparing the node set \<^verbatim>\<open>@N\<close> with a string holds when the
  attribute exists and has that value; as the argument of a function the node set is
  converted to a string first, the empty string when the attribute is absent.
\<close>

fun holds :: "predicate \<Rightarrow> element \<Rightarrow> bool" where
  "holds (HasAttr n) e = (attr e n \<noteq> None)"
| "holds (AttrEq n v) e = (attr e n = Some v)"
| "holds (TranslateAttrEq n f t v) e =
     (translate (case attr e n of None \<Rightarrow> [] | Some s \<Rightarrow> s) f t = v)"

fun eval_xpath :: "xpath_expr \<Rightarrow> element \<Rightarrow> element list" where
  "eval_xpath (Descendants nt None) doc = filter (matches_test nt) (iter doc)"
| "eval_xpath (Descendants nt (Some p)) doc =
     filter (\<lambda>e. matches_test nt e \<and> holds p e) (iter doc)"

text \<open>\<^verbatim>\<open>doc.xpath(q)\<close>\<close>

definition xpath :: "element \<Rightarrow> string \<Rightarrow> exn + element list" where
  "xpath doc q =
     (if \<not> list_all xml_char q then Inl ValueError
      else (case parse_xpath q of None \<Rightarrow> Inl XPathEvalError | Some e \<Rightarrow> Inr (eval_xpath e doc)))"

text \<open>\<^verbatim>\<open>_xpath_count\<close> (line 47)\<close>

definition xpath_count :: "element \<Rightarrow> string \<Rightarrow> exn + nat" where
  "xpath_count doc q = (case xpath doc q of Inl x \<Rightarrow> Inl x | Inr ns \<Rightarrow> Inr (length ns))"

section \<open>The spec, the result and the world outside the harness\<close>

text \<open>
  The spec file, read along its schema and the annotations of \<^verbatim>\<open>check_html\<close>
  (\<^verbatim>\<open>ids: List[str]\<close>, \<^verbatim>\<open>selectors: List[str]\<close>, entries with \<^verbatim>\<open>name\<close> and
  \<^verbatim>\<open>values\<close>). A field is \<open>None\<close> when the key is absent or \<^verbatim>\<open>null\<close>, which
  \<^verbatim>\<open>.get(k) or default\<close> does not tell apart. \<open>abi\<close> and \<open>contractId\<close> are only compared
  and copied, so they stay untyped (\<open>PyNone\<close> when absent).
\<close>

record data_attribute =
  da_name :: "string option"
  da_values :: "string list option"

record html_requires =
  ids :: "string list option"
  selectors :: "string list option"
  dataAttributes :: "data_attribute list option"

record spec_html =
  requires :: "html_requires option"

record spec =
  abi :: pyval
  contractId :: pyval
  html :: "spec_html option"

text \<open>\<^verbatim>\<open>CheckResult\<close> (line 33). The dataclass does not check the field types.\<close>

record CheckResult =
  ok :: bool
  errors :: pyval
  details :: pyval

text \<open>\<^verbatim>\<open>subprocess.CompletedProcess\<close> with captured text output.\<close>

record completed_process =
  returncode :: int
  stdout :: string
  stderr :: string

text \<open>
  What the harness calls and does not define: reading a file, the JSON decoder (for the
  spec file along the schema above, for the checker's output as a plain value), the HTML
  parser and the launch of a subprocess (the argument vector and the \<^verbatim>\<open>check\<close> flag).
  Each returns \<open>Inl\<close> with the text of the exception when it raises.
\<close>

record platform =
  open_read :: "string \<Rightarrow> string + string"
  json_load :: "string \<Rightarrow> string + spec"
  fromstring :: "string \<Rightarrow> string + element"
  subprocess_run :: "string list \<Rightarrow> bool \<Rightarrow> string + completed_process"
  json_loads :: "string \<Rightarrow> string + pyval"

section \<open>check_html\<close>

text \<open>
  The two f-strings that paste spec text into a query: \<^verbatim>\<open>f"//*[@id='{idv}']"\<close> (line 68)
  and the one of line 108, which pastes the name after \<^verbatim>\<open>//*[@\<close> and the value between
  the apostrophes of \<^verbatim>\<open>='...']\<close>.
\<close>

definition id_query :: "string \<Rightarrow> string" where
  "id_query idv = ''//*[@id='' @ [SQ] @ idv @ [SQ] @ '']''"

definition attr_query :: "string \<Rightarrow> string \<Rightarrow> string" where
  "attr_query name v = ''//*[@'' @ name @ ''='' @ [SQ] @ v @ [SQ] @ '']''"

text \<open>The loop over the required ids (lines 65 to 72), with its two accumulators.\<close>

fun ids_loop :: "element \<Rightarrow> string list \<Rightarrow> string list \<Rightarrow> (string \<times> nat) list
    \<Rightarrow> exn + (string list \<times> (string \<times> nat) list)" where
  "ids_loop doc [] missing dupes = Inr (missing, dupes)"
| "ids_loop doc (idv # rest) missing dupes =
     (case xpath_count doc (id_query idv) of
        Inl x \<Rightarrow> Inl x
      | Inr n \<Rightarrow>
          if n = 0 then ids_loop doc rest (missing @ [idv]) dupes
          else if n > 1 then ids_loop doc rest missing (dupes @ [(idv, n)])
          else ids_loop doc rest missing dupes)"

text \<open>The loop over the selectors (lines 80 to 94).\<close>

definition viewport_query :: string where
  "viewport_query =
     ''//meta[translate(@name,'ABCDEFGHIJKLMNOPQRSTUVWXYZ','abcdefghijklmnopqrstuvwxyz')='viewport']''"

fun selectors_loop :: "element \<Rightarrow> string list \<Rightarrow> string list \<Rightarrow> string list
    \<Rightarrow> exn + (string list \<times> string list)" where
  \<open>selectors_loop doc [] sel_missing unsupported = Inr (sel_missing, unsupported)\<close>
| \<open>selectors_loop doc (sel0 # rest) sel_missing unsupported =
     (let sel = strip sel0 in
      if sel = ''title'' then
        (case xpath_count doc ''//title'' of
           Inl x \<Rightarrow> Inl x
         | Inr n \<Rightarrow>
             if n = 0 then selectors_loop doc rest (sel_missing @ [sel]) unsupported
             else selectors_loop doc rest sel_missing unsupported)
      else if sel = ''meta[charset]'' then
        (case xpath_count doc ''//meta[@charset]'' of
           Inl x \<Rightarrow> Inl x
         | Inr n \<Rightarrow>
             if n = 0 then selectors_loop doc rest (sel_missing @ [sel]) unsupported
             else selectors_loop doc rest sel_missing unsupported)
      else if sel = ''meta[name='viewport']'' \<or> sel = ''meta[name="viewport"]'' then
        (case xpath_count doc viewport_query of
           Inl x \<Rightarrow> Inl x
         | Inr n \<Rightarrow>
             if n = 0 then selectors_loop doc rest (sel_missing @ [''meta[name='viewport']'']) unsupported
             else selectors_loop doc rest sel_missing unsupported)
      else selectors_loop doc rest sel_missing (unsupported @ [sel]))\<close>

text \<open>The loops over the data-attribute entries and their values (lines 102 to 112).\<close>

fun values_loop :: "element \<Rightarrow> string \<Rightarrow> string list \<Rightarrow> string list \<Rightarrow> string list
    \<Rightarrow> exn + (string list \<times> string list)" where
  "values_loop doc name [] enforced da_missing = Inr (enforced, da_missing)"
| "values_loop doc name (v # rest) enforced da_missing =
     (case xpath_count doc (attr_query name v) of
        Inl x \<Rightarrow> Inl x
      | Inr n \<Rightarrow>
          if n = 0 then values_loop doc name rest enforced (da_missing @ [name @ ''='' @ v])
          else values_loop doc name rest (enforced @ [name @ ''='' @ v]) da_missing)"

fun data_attrs_loop :: "element \<Rightarrow> data_attribute list \<Rightarrow> string list \<Rightarrow> string list
    \<Rightarrow> exn + (string list \<times> string list)" where
  "data_attrs_loop doc [] enforced da_missing = Inr (enforced, da_missing)"
| "data_attrs_loop doc (da # rest) enforced da_missing =
     (let name = (case da_name da of None \<Rightarrow> [] | Some n \<Rightarrow> n);
          vals = (case da_values da of None \<Rightarrow> [] | Some vs \<Rightarrow> vs) in
      if name = [] \<or> vals = [] then data_attrs_loop doc rest enforced da_missing
      else (case values_loop doc name vals enforced da_missing of
              Inl x \<Rightarrow> Inl x
            | Inr (enforced', da_missing') \<Rightarrow> data_attrs_loop doc rest enforced' da_missing'))"

text \<open>
  \<^verbatim>\<open>check_html\<close> (line 50). Only the call of the parser is inside the \<^verbatim>\<open>try\<close>: an
  exception of a query leaves the function, the result \<open>Inl\<close>.
\<close>

definition str_list :: "string list \<Rightarrow> pyval" where
  "str_list xs = PyList (map PyStr xs)"

text \<open>\<^verbatim>\<open>(spec.get("html") or {}).get("requires") or {}\<close> and the three lists read from it (lines 59 to 62).\<close>

definition html_requires_of :: "spec \<Rightarrow> html_requires" where
  "html_requires_of spec =
     (case html spec of
        None \<Rightarrow> \<lparr>ids = None, selectors = None, dataAttributes = None\<rparr>
      | Some h \<Rightarrow>
          (case requires h of
             None \<Rightarrow> \<lparr>ids = None, selectors = None, dataAttributes = None\<rparr>
           | Some r \<Rightarrow> r))"

definition required_ids :: "spec \<Rightarrow> string list" where
  "required_ids spec = (case ids (html_requires_of spec) of None \<Rightarrow> [] | Some xs \<Rightarrow> xs)"

definition required_selectors :: "spec \<Rightarrow> string list" where
  "required_selectors spec = (case selectors (html_requires_of spec) of None \<Rightarrow> [] | Some xs \<Rightarrow> xs)"

definition required_data_attrs :: "spec \<Rightarrow> data_attribute list" where
  "required_data_attrs spec = (case dataAttributes (html_requires_of spec) of None \<Rightarrow> [] | Some xs \<Rightarrow> xs)"

definition check_html :: "platform \<Rightarrow> spec \<Rightarrow> string \<Rightarrow> exn + CheckResult" where
  "check_html env spec html_text =
     (case fromstring env html_text of
        Inl e \<Rightarrow> Inr \<lparr>ok = False, errors = str_list [''HTML parse error: '' @ e], details = PyDict []\<rparr>
      | Inr doc \<Rightarrow>
     (let idl = required_ids spec;
          sels = required_selectors spec;
          data_attrs = required_data_attrs spec in
      case ids_loop doc idl [] [] of
        Inl x \<Rightarrow> Inl x
      | Inr (missing, dupes) \<Rightarrow>
     (let errs1 = (if missing \<noteq> [] then [''Missing required id(s): '' @ join '', '' missing] else []);
          errs2 = errs1 @
            (if dupes \<noteq> [] then
               [''Duplicate id(s) found: '' @
                  join '', '' (map (\<lambda>(i, n). i @ '' (count='' @ str_nat n @ '')'') dupes)]
             else []);
          d1 = [(''requiredIds'', PyDict
                  [(''count'', PyInt (int (length idl))),
                   (''missing'', str_list missing),
                   (''duplicates'', PyList (map (\<lambda>(i, n). PyTuple [PyStr i, PyInt (int n)]) dupes))])] in
      case selectors_loop doc sels [] [] of
        Inl x \<Rightarrow> Inl x
      | Inr (sel_missing, unsupported) \<Rightarrow>
     (let errs3 = errs2 @
            (if sel_missing \<noteq> [] then [''Missing required selector(s): '' @ join '', '' sel_missing]
             else []);
          d2 = d1 @ [(''requiredSelectors'', PyDict
                  [(''count'', PyInt (int (length sels))),
                   (''missing'', str_list sel_missing),
                   (''unsupported'', str_list unsupported)])] in
      case data_attrs_loop doc data_attrs [] [] of
        Inl x \<Rightarrow> Inl x
      | Inr (enforced, da_missing) \<Rightarrow>
     (let errs4 = errs3 @
            (if da_missing \<noteq> [] then
               [''Missing required data-attribute instance(s): '' @ join '', '' da_missing]
             else []);
          d3 = d2 @ [(''dataAttributes'', PyDict
                  [(''enforced'', str_list enforced), (''missing'', str_list da_missing)])] in
      Inr \<lparr>ok = (length errs4 = 0), errors = str_list errs4, details = PyDict d3\<rparr>)))))"

section \<open>check_js\<close>

text \<open>
  \<^verbatim>\<open>check_js\<close> (line 119). The two \<^verbatim>\<open>try\<close> blocks guard the two launches and a
  third the decoder; \<^verbatim>\<open>payload.get\<close> on a value that is no dictionary and the
  assignment \<^verbatim>\<open>details["stderr"] = ...\<close> on one are outside them.
\<close>

definition check_js :: "platform \<Rightarrow> string \<Rightarrow> string \<Rightarrow> string \<Rightarrow> exn + CheckResult" where
  "check_js env spec_path html_path node_script_path =
     (case subprocess_run env [''node'', ''--version''] True of
        Inl e \<Rightarrow> Inr \<lparr>ok = False, errors = str_list [''Node.js not available: '' @ e], details = PyDict []\<rparr>
      | Inr _ \<Rightarrow>
     (case subprocess_run env [''node'', node_script_path, ''--spec'', spec_path, ''--html'', html_path] False of
        Inl e \<Rightarrow> Inr \<lparr>ok = False, errors = str_list [''Failed to execute JS harness: '' @ e], details = PyDict []\<rparr>
      | Inr p \<Rightarrow>
          if returncode p = 2 then
            Inr \<lparr>ok = False,
                 errors = str_list [''JS harness internal error:'' @ [NL] @
                                     (if stderr p \<noteq> [] then stderr p else stdout p)],
                 details = PyDict []\<rparr>
          else if strip (stdout p) = [] then
            Inr \<lparr>ok = False,
                 errors = str_list [''JS harness produced no output.'', strip (stderr p)],
                 details = PyDict []\<rparr>
          else
            (case json_loads env (stdout p) of
               Inl e \<Rightarrow>
                 Inr \<lparr>ok = False,
                      errors = str_list [''JS harness output was not valid JSON: '' @ e, take 4000 (stdout p)],
                      details = PyDict [(''stderr'', PyStr (stderr p))]\<rparr>
             | Inr payload \<Rightarrow>
                 (case payload of
                    PyDict kvs \<Rightarrow>
                      (let okv = truthy (dict_get kvs ''ok'');
                           errs = (if truthy (dict_get kvs ''errors'') then dict_get kvs ''errors''
                                   else if okv then PyList [] else str_list [''JS compliance failed.'']);
                           dets = (if truthy (dict_get kvs ''details'') then dict_get kvs ''details''
                                   else PyDict []) in
                       if strip (stderr p) \<noteq> [] then
                         (case dets of
                            PyDict d \<Rightarrow>
                              Inr \<lparr>ok = okv, errors = errs,
                                   details = PyDict (dict_set d ''stderr'' (PyStr (strip (stderr p))))\<rparr>
                          | _ \<Rightarrow> Inl TypeError)
                       else Inr \<lparr>ok = okv, errors = errs, details = dets\<rparr>)
                  | _ \<Rightarrow> Inl AttributeError))))"

section \<open>main\<close>

text \<open>
  The parsed command line (lines 156 to 162), and \<^verbatim>\<open>main\<close> up to the report it hands to
  the printing code (lines 164 to 197). A harness error is the message written to the
  error stream followed by \<^verbatim>\<open>sys.exit(2)\<close>. The first component of the result lists
  the checkers in the order \<^verbatim>\<open>main\<close> has called them.
\<close>

datatype mode = ModeHtml | ModeJs | ModeAll

record args =
  arg_spec :: string
  arg_html :: string
  arg_mode :: mode
  arg_json :: bool
  arg_node_harness :: string

record report =
  report_abi :: pyval
  report_contractId :: pyval
  report_source :: "string \<times> string"
  results :: "(string \<times> CheckResult) list"

datatype harness_error = CannotReadSpec string | UnsupportedAbi pyval | CannotReadHtml string

datatype checker = CheckHtml | CheckJs

datatype main_outcome =
    HarnessError harness_error
  | Uncaught exn
  | Completed report bool

text \<open>\<^verbatim>\<open>_read_json\<close> (line 39) and \<^verbatim>\<open>_read_text\<close> (line 43)\<close>

definition read_json :: "platform \<Rightarrow> string \<Rightarrow> string + spec" where
  "read_json env path = (case open_read env path of Inl e \<Rightarrow> Inl e | Inr s \<Rightarrow> json_load env s)"

definition read_text :: "platform \<Rightarrow> string \<Rightarrow> string + string" where
  "read_text env path = open_read env path"

definition main :: "platform \<Rightarrow> args \<Rightarrow> checker list \<times> main_outcome" where
  "main env a =
     (case read_json env (arg_spec a) of
        Inl e \<Rightarrow> ([], HarnessError (CannotReadSpec e))
      | Inr spec \<Rightarrow>
          if abi spec \<noteq> PyStr ''sfwa-abi-1'' then ([], HarnessError (UnsupportedAbi (abi spec)))
          else
     (case read_text env (arg_html a) of
        Inl e \<Rightarrow> ([], HarnessError (CannotReadHtml e))
      | Inr html_text \<Rightarrow>
     (let rep0 = \<lparr>report_abi = abi spec, report_contractId = contractId spec,
                  report_source = (arg_spec a, arg_html a), results = []\<rparr>;
          html_step =
            (if arg_mode a = ModeHtml \<or> arg_mode a = ModeAll then
               (case check_html env spec html_text of
                  Inl x \<Rightarrow> Inl ([CheckHtml], x)
                | Inr r \<Rightarrow> Inr ([CheckHtml], rep0\<lparr>results := results rep0 @ [(''html'', r)]\<rparr>, ok r))
             else Inr ([], rep0, True)) in
      case html_step of
        Inl (calls, x) \<Rightarrow> (calls, Uncaught x)
      | Inr (calls, rep1, ok1) \<Rightarrow>
          if arg_mode a = ModeJs \<or> arg_mode a = ModeAll then
            (case check_js env (arg_spec a) (arg_html a) (arg_node_harness a) of
               Inl x \<Rightarrow> (calls @ [CheckJs], Uncaught x)
             | Inr r \<Rightarrow>
                 (calls @ [CheckJs],
                  Completed (rep1\<lparr>results := results rep1 @ [(''js'', r)]\<rparr>) (ok1 \<and> ok r)))
          else (calls, Completed rep1 ok1))))"

section \<open>Properties of a document and of spec text\<close>





text \<open>Lower case for the letters A to Z, every other character unchanged.\<close>

definition lower_char :: "char \<Rightarrow> char" where
  "lower_char c = (let n = (of_char c :: nat) in if 65 \<le> n \<and> n \<le> 90 then char_of (n + 32) else c)"

definition names_viewport :: "element \<Rightarrow> bool" where
  "names_viewport e = (case attr e ''name'' of None \<Rightarrow> False | Some v \<Rightarrow> map lower_char v = ''viewport'')"

definition has_viewport :: "element \<Rightarrow> bool" where
  "has_viewport doc = (\<exists>e \<in> set (iter doc). tag e = ''meta'' \<and> names_viewport e)"

definition viewport_selector :: "string \<Rightarrow> bool" where
  \<open>viewport_selector sel = (strip sel = ''meta[name='viewport']'' \<or> strip sel = ''meta[name="viewport"]'')\<close>


text \<open>
  The entries that are enforced, those with a non-empty name and a non-empty list of
  values, as the pairs of a name and a value they ask for.
\<close>

definition skipped :: "data_attribute \<Rightarrow> bool" where
  "skipped da = (da_name da = None \<or> da_name da = Some [] \<or> da_values da = None \<or> da_values da = Some [])"






text \<open>An errors value that is a list with at least one non-empty string in it.\<close>

fun nonempty_str :: "pyval \<Rightarrow> bool" where
  "nonempty_str (PyStr s) = (s \<noteq> [])"
| "nonempty_str _ = False"

fun has_message :: "pyval \<Rightarrow> bool" where
  "has_message (PyList xs) = list_ex nonempty_str xs"
| "has_message _ = False"

fun is_dict :: "pyval \<Rightarrow> bool" where
  "is_dict (PyDict d) = True"
| "is_dict _ = False"

section \<open>Sample inputs\<close>

text \<open>
  A platform given by tables: the files, the decoded spec files, the parsed documents,
  the outcome of each command line and the decoded outputs. What is in no table raises.
\<close>

definition lookup_or :: "string \<Rightarrow> ('k \<times> 'v) list \<Rightarrow> 'k \<Rightarrow> string + 'v" where
  "lookup_or msg tbl k = (case map_of tbl k of None \<Rightarrow> Inl msg | Some v \<Rightarrow> Inr v)"

definition table_platform :: "(string \<times> string) list \<Rightarrow> (string \<times> spec) list \<Rightarrow> (string \<times> element) list
    \<Rightarrow> (string list \<times> completed_process) list \<Rightarrow> (string \<times> pyval) list \<Rightarrow> platform" where
  "table_platform files specs docs procs payloads =
     \<lparr>open_read = lookup_or ''No such file or directory'' files,
      json_load = lookup_or ''Expecting value'' specs,
      fromstring = lookup_or ''Document is empty'' docs,
      subprocess_run = (\<lambda>argv check. lookup_or ''No such file or directory: node'' procs argv),
      json_loads = lookup_or ''Expecting value'' payloads\<rparr>"

definition spec_requiring :: "string list \<Rightarrow> string list \<Rightarrow> data_attribute list \<Rightarrow> spec" where
  "spec_requiring is ss das =
     \<lparr>abi = PyStr ''sfwa-abi-1'', contractId = PyStr ''demo'',
      html = Some \<lparr>requires = Some \<lparr>ids = Some is, selectors = Some ss, dataAttributes = Some das\<rparr>\<rparr>\<rparr>"


definition app_doc :: element where
  "app_doc =
     Element ''html'' []
       [Element ''head'' []
          [Element ''title'' [] [],
           Element ''meta'' [(''charset'', ''utf-8'')] [],
           Element ''meta'' [(''name'', ''Viewport''), (''content'', ''width=device-width'')] []],
        Element ''body'' []
          [Element ''div'' [(''id'', ''app''), (''data-role'', ''main'')] []]]"


definition input_doc :: element where
  "input_doc =
     Element ''html'' []
       [Element ''head'' [] [],
        Element ''body'' [] [Element ''input'' [(''name'', ''viewport'')] []]]"

definition doc_platform :: "element \<Rightarrow> platform" where
  "doc_platform d = table_platform [] [] [(''<html>'', d)] [] []"

definition reply :: "int \<Rightarrow> string \<Rightarrow> string \<Rightarrow> completed_process" where
  "reply rc out err = \<lparr>returncode = rc, stdout = out, stderr = err\<rparr>"

definition node_version :: completed_process where
  "node_version = \<lparr>returncode = 0, stdout = ''v18.19.0'' @ [NL], stderr = []\<rparr>"

definition harness_argv :: "string list" where
  "harness_argv = [''node'', ''h.mjs'', ''--spec'', ''s.json'', ''--html'', ''a.html'']"

definition js_platform :: "completed_process \<Rightarrow> pyval \<Rightarrow> platform" where
  "js_platform p payload =
     table_platform [] [] []
       [([''node'', ''--version''], node_version),
        (harness_argv, p)]
       [(stdout p, payload)]"

text \<open>
  A whole installation: the spec file \<^verbatim>\<open>s.json\<close>, the document \<^verbatim>\<open>a.html\<close>, and the
  external checker \<^verbatim>\<open>h.mjs\<close> with its outcome.
\<close>

definition demo_platform :: "spec \<Rightarrow> element \<Rightarrow> completed_process \<Rightarrow> pyval \<Rightarrow> platform" where
  "demo_platform sp d p payload =
     table_platform
       [(''s.json'', ''{}''), (''a.html'', ''<html>'')]
       [(''{}'', sp)]
       [(''<html>'', d)]
       [([''node'', ''--version''], node_version), (harness_argv, p)]
       [(stdout p, payload)]"

definition demo_args :: "mode \<Rightarrow> args" where
  "demo_args m =
     \<lparr>arg_spec = ''s.json'', arg_html = ''a.html'', arg_mode = m, arg_json = False,
      arg_node_harness = ''h.mjs''\<rparr>"

section \<open>Queries built from plain text\<close>



















section \<open>The three fixed queries\<close>




lemma xpath_count_viewport:
  "xpath_count doc viewport_query =
     Inr (length (filter (\<lambda>e. tag e = ''meta'' \<and>
        translate (case attr e ''name'' of None \<Rightarrow> [] | Some s \<Rightarrow> s)
          ''ABCDEFGHIJKLMNOPQRSTUVWXYZ'' ''abcdefghijklmnopqrstuvwxyz'' = ''viewport'') (iter doc)))"
  by (simp add: xpath_count_def xpath_def xml_char_def viewport_query_def parse_xpath_def
      expect_def parse_name_test_def parse_predicate_def parse_translate_predicate_def
      is_name_start_def is_name_char_def)

text \<open>
  The two alphabets of the viewport query make \<^verbatim>\<open>translate\<close> the lower-casing of the
  letters A to Z.
\<close>

lemma translate_char_upper:
  "\<forall>c \<in> set ''ABCDEFGHIJKLMNOPQRSTUVWXYZ''.
     translate_char ''ABCDEFGHIJKLMNOPQRSTUVWXYZ'' ''abcdefghijklmnopqrstuvwxyz'' c = [lower_char c]"
  by code_simp

lemma translate_char_other: "c \<notin> set fs \<Longrightarrow> translate_char fs ts c = [c]"
  by (induction fs ts c rule: translate_char.induct) auto

lemma upper_codes: "map of_char ''ABCDEFGHIJKLMNOPQRSTUVWXYZ'' = [65..<91::nat]"
  by code_simp

lemma upper_cases:
  assumes "65 \<le> (of_char c :: nat)" and "(of_char c :: nat) \<le> 90"
  shows "c \<in> set ''ABCDEFGHIJKLMNOPQRSTUVWXYZ''"
proof -
  from assms have "(of_char c :: nat) \<in> set [65..<91]"
    by (simp only: set_upt atLeastLessThan_iff) arith
  then have "(of_char c :: nat) \<in> of_char ` set ''ABCDEFGHIJKLMNOPQRSTUVWXYZ''"
    by (simp only: upper_codes [symmetric] set_map)
  then show ?thesis
    by (simp only: inj_image_mem_iff [OF inj_of_char])
qed

lemma translate_char_lower:
  "translate_char ''ABCDEFGHIJKLMNOPQRSTUVWXYZ'' ''abcdefghijklmnopqrstuvwxyz'' c = [lower_char c]"
proof (cases "c \<in> set ''ABCDEFGHIJKLMNOPQRSTUVWXYZ''")
  case True
  with translate_char_upper show ?thesis by blast
next
  case False
  with upper_cases [of c] have "\<not> (65 \<le> (of_char c :: nat) \<and> (of_char c :: nat) \<le> 90)"
    by blast
  then have "lower_char c = c" by (auto simp: lower_char_def Let_def)
  then show ?thesis by (simp only: translate_char_other [OF False])
qed

lemma translate_lower:
  "translate s ''ABCDEFGHIJKLMNOPQRSTUVWXYZ'' ''abcdefghijklmnopqrstuvwxyz'' = map lower_char s"
  unfolding translate_def
  by (induction s) (simp_all only: translate_char_lower list.map concat.simps append.simps)

lemma viewport_holds:
  "(translate (case attr e ''name'' of None \<Rightarrow> [] | Some s \<Rightarrow> s)
      ''ABCDEFGHIJKLMNOPQRSTUVWXYZ'' ''abcdefghijklmnopqrstuvwxyz'' = ''viewport'') =
   names_viewport e"
  by (simp only: translate_lower names_viewport_def split: option.splits) simp



lemma viewport_count:
  "\<exists>n. xpath_count doc viewport_query = Inr n \<and> (n = 0) = (\<not> has_viewport doc)"
  by (simp add: xpath_count_viewport has_viewport_def filter_empty_conv viewport_holds)

section \<open>The loops\<close>





lemma viewport_step:
  assumes "viewport_selector sel"
  shows "selectors_loop doc (sel # rest) missing unsupported =
         selectors_loop doc rest
           (if has_viewport doc then missing else missing @ [''meta[name='viewport']''])
           unsupported"
proof -
  obtain n where n: "xpath_count doc viewport_query = Inr n" "(n = 0) = (\<not> has_viewport doc)"
    using viewport_count by blast
  from assms have "strip sel \<noteq> ''title''" "strip sel \<noteq> ''meta[charset]''"
    by (auto simp: viewport_selector_def)
  with assms n show ?thesis
    by (auto simp: viewport_selector_def Let_def)
qed







lemma data_attrs_loop_skip:
  "skipped da \<Longrightarrow> data_attrs_loop doc (xs @ da # ys) e m = data_attrs_loop doc (xs @ ys) e m"
proof (induction xs arbitrary: e m)
  case Nil
  then show ?case by (auto simp: skipped_def)
next
  case (Cons x xs)
  then show ?case by (simp add: Let_def split: sum.splits prod.splits)
qed


section \<open>The structural checker\<close>

subsection \<open>A document that does not parse\<close>

text \<open>
  Claim C7. When the parser raises on the HTML text, \<^verbatim>\<open>check_html\<close> returns a failing
  result with exactly one error string, the parser's message after a fixed prefix, and
  an empty details mapping. The result is the same for every spec: no requirement group
  is looked at, so not even a spec whose queries would raise can change it.
\<close>

theorem check_html_parse_failure:
  "fromstring env html_text = Inl e \<Longrightarrow>
   check_html env spec html_text =
     Inr \<lparr>ok = False, errors = PyList [PyStr (''HTML parse error: '' @ e)], details = PyDict []\<rparr>"
  by (simp add: check_html_def str_list_def)

theorem check_html_parse_failure_witness:
  "fromstring (doc_platform app_doc) [] = Inl ''Document is empty'' \<and>
   check_html (doc_platform app_doc) (spec_requiring [''it's''] [''title''] []) [] =
     Inr \<lparr>ok = False, errors = PyList [PyStr ''HTML parse error: Document is empty''],
          details = PyDict []\<rparr>"
  using check_html_parse_failure [of "doc_platform app_doc" "[]" "''Document is empty''"
      "spec_requiring [''it's''] [''title''] []"]
  by (simp add: doc_platform_def table_platform_def lookup_or_def)

subsection \<open>ok and the error list\<close>

text \<open>
  Claim C2. Every result that \<^verbatim>\<open>check_html\<close> returns, for every spec and every HTML
  text, has \<open>ok\<close> true exactly when its error list is empty.
\<close>

theorem check_html_ok_iff_no_errors:
  "check_html env spec html_text = Inr r \<Longrightarrow> ok r = (errors r = PyList [])"
  by (auto simp: check_html_def str_list_def Let_def split: sum.splits prod.splits if_splits)

theorem check_html_ok_iff_no_errors_witness:
  "check_html (doc_platform app_doc) (spec_requiring [''app'', ''nav''] [''title''] []) ''<html>'' =
     Inr \<lparr>ok = False, errors = PyList [PyStr ''Missing required id(s): nav''],
          details = PyDict
            [(''requiredIds'', PyDict [(''count'', PyInt 2), (''missing'', PyList [PyStr ''nav'']),
                                      (''duplicates'', PyList [])]),
             (''requiredSelectors'', PyDict [(''count'', PyInt 1), (''missing'', PyList []),
                                            (''unsupported'', PyList [])]),
             (''dataAttributes'', PyDict [(''enforced'', PyList []), (''missing'', PyList [])])]\<rparr>
   \<and> \<not> (PyList [PyStr ''Missing required id(s): nav''] = PyList [])"
proof -
  have run: "check_html (doc_platform app_doc) (spec_requiring [''app'', ''nav''] [''title''] []) ''<html>'' =
     Inr \<lparr>ok = False, errors = PyList [PyStr ''Missing required id(s): nav''],
          details = PyDict
            [(''requiredIds'', PyDict [(''count'', PyInt 2), (''missing'', PyList [PyStr ''nav'']),
                                      (''duplicates'', PyList [])]),
             (''requiredSelectors'', PyDict [(''count'', PyInt 1), (''missing'', PyList []),
                                            (''unsupported'', PyList [])]),
             (''dataAttributes'', PyDict [(''enforced'', PyList []), (''missing'', PyList [])])]\<rparr>"
    by code_simp
  from check_html_ok_iff_no_errors [OF run] run show ?thesis by simp
qed

subsection \<open>A document that meets every requirement\<close>




subsection \<open>The viewport selector\<close>

text \<open>
  Claim C8, as stated, fails: an \<^verbatim>\<open>input\<close> element carries \<^verbatim>\<open>name="viewport"\<close>, and the
  requirement is reported as missing, because the query asks for a \<^verbatim>\<open>meta\<close> element.
\<close>

theorem viewport_selector_counterexample:
  "Element ''input'' [(''name'', ''viewport'')] [] \<in> set (iter input_doc) \<and>
   names_viewport (Element ''input'' [(''name'', ''viewport'')] []) \<and>
   check_html (doc_platform input_doc) (spec_requiring [] [''meta[name='viewport']''] []) ''<html>'' =
     Inr \<lparr>ok = False,
          errors = PyList [PyStr ''Missing required selector(s): meta[name='viewport']''],
          details = PyDict
            [(''requiredIds'', PyDict [(''count'', PyInt 0), (''missing'', PyList []),
                                      (''duplicates'', PyList [])]),
             (''requiredSelectors'', PyDict [(''count'', PyInt 1),
                                            (''missing'', PyList [PyStr ''meta[name='viewport']'']),
                                            (''unsupported'', PyList [])]),
             (''dataAttributes'', PyDict [(''enforced'', PyList []), (''missing'', PyList [])])]\<rparr>"
  by code_simp

text \<open>
  Claim C8, amended. A selector that is, after stripping, \<^verbatim>\<open>meta[name='viewport']\<close> in
  either quoting style is recognised, and it is met exactly when some \<^verbatim>\<open>meta\<close> element
  carries a \<open>name\<close> attribute whose value, with the letters A to Z in lower case, is
  \<^verbatim>\<open>viewport\<close>. When it is not met, the loop records the single-quoted spelling as missing,
  whatever the spelling in the spec, and it never records the selector as unsupported.
  For a spec with this selector as its only requirement, \<open>ok\<close> is exactly that condition.
\<close>

theorem viewport_selector_requirement:
  assumes "viewport_selector sel"
  shows "selectors_loop doc (sel # rest) missing unsupported =
           selectors_loop doc rest
             (if has_viewport doc then missing else missing @ [''meta[name='viewport']''])
             unsupported
    \<and> (fromstring env html_text = Inr doc \<and> required_ids spec = [] \<and>
        required_selectors spec = [sel] \<and> required_data_attrs spec = [] \<longrightarrow>
        (\<exists>d. check_html env spec html_text =
           Inr \<lparr>ok = has_viewport doc,
                errors = (if has_viewport doc then PyList []
                          else PyList [PyStr ''Missing required selector(s): meta[name='viewport']'']),
                details = d\<rparr>))"
  using viewport_step [OF assms]
  by (simp add: check_html_def str_list_def)

theorem viewport_selector_requirement_witness:
  \<open>viewport_selector '' meta[name="viewport"] '' \<and>
   has_viewport app_doc \<and>
   (\<exists>d. check_html (doc_platform app_doc) (spec_requiring [] ['' meta[name="viewport"] ''] []) ''<html>'' =
      Inr \<lparr>ok = True, errors = PyList [], details = d\<rparr>)\<close>
proof -
  have h1: \<open>viewport_selector '' meta[name="viewport"] ''\<close>
    by code_simp
  have h2: \<open>fromstring (doc_platform app_doc) ''<html>'' = Inr app_doc \<and>
      required_ids (spec_requiring [] ['' meta[name="viewport"] ''] []) = [] \<and>
      required_selectors (spec_requiring [] ['' meta[name="viewport"] ''] []) = ['' meta[name="viewport"] ''] \<and>
      required_data_attrs (spec_requiring [] ['' meta[name="viewport"] ''] []) = []\<close>
    by code_simp
  have h3: "has_viewport app_doc"
    by code_simp
  from viewport_selector_requirement [OF h1, of app_doc "[]" "[]" "[]" "doc_platform app_doc"
      "''<html>''" \<open>spec_requiring [] ['' meta[name="viewport"] ''] []\<close>] h1 h2 h3
  show ?thesis by simp
qed

subsection \<open>Entries that are not enforced\<close>

text \<open>
  Claim C9. A data-attribute entry whose name is missing or empty, or whose list of
  values is missing or empty, has no effect: with the entry anywhere in the list,
  \<^verbatim>\<open>check_html\<close> gives the same outcome (the same result with the same errors and the same
  enforced and missing lists, or the same exception) as for the spec without it.
\<close>

theorem skipped_entry_no_effect:
  assumes "skipped da"
    and "required_data_attrs spec = xs @ da # ys"
    and "required_data_attrs spec' = xs @ ys"
    and "required_ids spec' = required_ids spec"
    and "required_selectors spec' = required_selectors spec"
  shows "check_html env spec html_text = check_html env spec' html_text"
proof -
  have eq: "data_attrs_loop doc (required_data_attrs spec) [] [] =
            data_attrs_loop doc (required_data_attrs spec') [] []" for doc
    by (simp only: assms(2,3) data_attrs_loop_skip [OF assms(1)])
  show ?thesis
    unfolding check_html_def Let_def eq assms(4) assms(5) by (rule refl)
qed

theorem skipped_entry_no_effect_witness:
  "skipped \<lparr>da_name = Some ''data-x'', da_values = Some []\<rparr> \<and>
   check_html (doc_platform app_doc)
     (spec_requiring [''app''] [''title'']
        [\<lparr>da_name = Some ''data-role'', da_values = Some [''main'']\<rparr>,
         \<lparr>da_name = Some ''data-x'', da_values = Some []\<rparr>,
         \<lparr>da_name = Some ''data-state'', da_values = Some [''open'']\<rparr>]) ''<html>'' =
   check_html (doc_platform app_doc)
     (spec_requiring [''app''] [''title'']
        [\<lparr>da_name = Some ''data-role'', da_values = Some [''main'']\<rparr>,
         \<lparr>da_name = Some ''data-state'', da_values = Some [''open'']\<rparr>]) ''<html>''"
proof -
  have h1: "skipped \<lparr>da_name = Some ''data-x'', da_values = Some []\<rparr>"
    by code_simp
  have h2: "required_data_attrs (spec_requiring [''app''] [''title'']
        [\<lparr>da_name = Some ''data-role'', da_values = Some [''main'']\<rparr>,
         \<lparr>da_name = Some ''data-x'', da_values = Some []\<rparr>,
         \<lparr>da_name = Some ''data-state'', da_values = Some [''open'']\<rparr>]) =
      [\<lparr>da_name = Some ''data-role'', da_values = Some [''main'']\<rparr>] @
      \<lparr>da_name = Some ''data-x'', da_values = Some []\<rparr> #
      [\<lparr>da_name = Some ''data-state'', da_values = Some [''open'']\<rparr>]"
    by (simp add: required_data_attrs_def html_requires_of_def spec_requiring_def)
  have h3: "required_data_attrs (spec_requiring [''app''] [''title'']
        [\<lparr>da_name = Some ''data-role'', da_values = Some [''main'']\<rparr>,
         \<lparr>da_name = Some ''data-state'', da_values = Some [''open'']\<rparr>]) =
      [\<lparr>da_name = Some ''data-role'', da_values = Some [''main'']\<rparr>] @
      [\<lparr>da_name = Some ''data-state'', da_values = Some [''open'']\<rparr>]"
    by (simp add: required_data_attrs_def html_requires_of_def spec_requiring_def)
  have h4: "required_ids (spec_requiring [''app''] [''title'']
        [\<lparr>da_name = Some ''data-role'', da_values = Some [''main'']\<rparr>,
         \<lparr>da_name = Some ''data-state'', da_values = Some [''open'']\<rparr>]) =
      required_ids (spec_requiring [''app''] [''title'']
        [\<lparr>da_name = Some ''data-role'', da_values = Some [''main'']\<rparr>,
         \<lparr>da_name = Some ''data-x'', da_values = Some []\<rparr>,
         \<lparr>da_name = Some ''data-state'', da_values = Some [''open'']\<rparr>])"
    by (simp add: required_ids_def html_requires_of_def spec_requiring_def)
  have h5: "required_selectors (spec_requiring [''app''] [''title'']
        [\<lparr>da_name = Some ''data-role'', da_values = Some [''main'']\<rparr>,
         \<lparr>da_name = Some ''data-state'', da_values = Some [''open'']\<rparr>]) =
      required_selectors (spec_requiring [''app''] [''title'']
        [\<lparr>da_name = Some ''data-role'', da_values = Some [''main'']\<rparr>,
         \<lparr>da_name = Some ''data-x'', da_values = Some []\<rparr>,
         \<lparr>da_name = Some ''data-state'', da_values = Some [''open'']\<rparr>])"
    by (simp add: required_selectors_def html_requires_of_def spec_requiring_def)
  from skipped_entry_no_effect [OF h1 h2 h3 h4 h5] h1 show ?thesis by simp
qed

subsection \<open>An apostrophe in the spec\<close>



section \<open>The bridge to the external checker\<close>

subsection \<open>The sentinel exit code\<close>

text \<open>
  Claim C5. When the external checker was launched and exits with code 2, \<^verbatim>\<open>check_js\<close>
  returns a failing result with one error string: a fixed heading followed by the
  captured standard error, or by the captured standard output when standard error is
  empty. The decoder does not occur in the result: standard output is not read as data.
\<close>

theorem check_js_sentinel_exit:
  assumes "subprocess_run env [''node'', ''--version''] True = Inr v"
    and "subprocess_run env [''node'', ns, ''--spec'', sp, ''--html'', hp] False = Inr p"
    and "returncode p = 2"
  shows "check_js env sp hp ns =
     Inr \<lparr>ok = False,
          errors = PyList [PyStr (''JS harness internal error:'' @ [NL] @
                                   (if stderr p \<noteq> [] then stderr p else stdout p))],
          details = PyDict []\<rparr>"
  using assms by (simp add: check_js_def str_list_def)

theorem check_js_sentinel_exit_witness:
  \<open>subprocess_run (js_platform (reply 2 ''{"ok": true}'' ''boom'') (PyDict [(''ok'', PyBool True)]))
      [''node'', ''--version''] True = Inr node_version \<and>
   subprocess_run (js_platform (reply 2 ''{"ok": true}'' ''boom'') (PyDict [(''ok'', PyBool True)]))
      [''node'', ''h.mjs'', ''--spec'', ''s.json'', ''--html'', ''a.html''] False =
      Inr (reply 2 ''{"ok": true}'' ''boom'') \<and>
   returncode (reply 2 ''{"ok": true}'' ''boom'') = 2 \<and>
   check_js (js_platform (reply 2 ''{"ok": true}'' ''boom'') (PyDict [(''ok'', PyBool True)]))
      ''s.json'' ''a.html'' ''h.mjs'' =
     Inr \<lparr>ok = False,
          errors = PyList [PyStr (''JS harness internal error:'' @ [NL] @ ''boom'')],
          details = PyDict []\<rparr>\<close>
proof -
  have h1: \<open>subprocess_run (js_platform (reply 2 ''{"ok": true}'' ''boom'') (PyDict [(''ok'', PyBool True)]))
      [''node'', ''--version''] True = Inr node_version\<close>
    by code_simp
  have h2: \<open>subprocess_run (js_platform (reply 2 ''{"ok": true}'' ''boom'') (PyDict [(''ok'', PyBool True)]))
      [''node'', ''h.mjs'', ''--spec'', ''s.json'', ''--html'', ''a.html''] False =
      Inr (reply 2 ''{"ok": true}'' ''boom'')\<close>
    by code_simp
  have h3: \<open>returncode (reply 2 ''{"ok": true}'' ''boom'') = 2\<close>
    by (simp add: reply_def)
  from check_js_sentinel_exit [OF h1 h2 h3] h1 h2 h3 show ?thesis
    by (simp add: reply_def)
qed

subsection \<open>The errors field of the payload\<close>

text \<open>
  Claim C4, as stated, fails: the checker prints \<^verbatim>\<open>{"ok": false, "errors": []}\<close>, the
  errors field is present, and the result does not carry it but the synthesized error.
\<close>

theorem check_js_errors_counterexample:
  \<open>json_loads (js_platform (reply 1 ''{"ok": false, "errors": []}'' [])
       (PyDict [(''ok'', PyBool False), (''errors'', PyList [])]))
     ''{"ok": false, "errors": []}'' =
     Inr (PyDict [(''ok'', PyBool False), (''errors'', PyList [])]) \<and>
   map_of [(''ok'', PyBool False), (''errors'', PyList [])] ''errors'' = Some (PyList []) \<and>
   check_js (js_platform (reply 1 ''{"ok": false, "errors": []}'' [])
       (PyDict [(''ok'', PyBool False), (''errors'', PyList [])]))
     ''s.json'' ''a.html'' ''h.mjs'' =
     Inr \<lparr>ok = False, errors = PyList [PyStr ''JS compliance failed.''], details = PyDict []\<rparr>\<close>
  by code_simp

text \<open>
  Claim C4, amended. When the checker's output decodes to a JSON object, the result's
  \<open>ok\<close> is the truth value of the payload's \<open>ok\<close>, and its errors are the payload's
  \<open>errors\<close> unchanged when that value is truthy (a non-empty list, for one). When
  \<open>errors\<close> is absent or falsy (\<^verbatim>\<open>null\<close>, an empty list) the errors are the one string
  \<^verbatim>\<open>JS compliance failed.\<close> if \<open>ok\<close> is false, and the empty list if \<open>ok\<close> is true.
  The one case without a result: a truthy \<open>details\<close> that is no object, together with
  output on standard error, raises \<open>TypeError\<close>.
\<close>

theorem check_js_errors_field:
  assumes "subprocess_run env [''node'', ''--version''] True = Inr v"
    and "subprocess_run env [''node'', ns, ''--spec'', sp, ''--html'', hp] False = Inr p"
    and "returncode p \<noteq> 2"
    and "strip (stdout p) \<noteq> []"
    and "json_loads env (stdout p) = Inr (PyDict kvs)"
  shows "(strip (stderr p) \<noteq> [] \<and> truthy (dict_get kvs ''details'') \<and>
          \<not> is_dict (dict_get kvs ''details'') \<and> check_js env sp hp ns = Inl TypeError)
       \<or> (\<exists>d. check_js env sp hp ns =
             Inr \<lparr>ok = truthy (dict_get kvs ''ok''),
                  errors = (if truthy (dict_get kvs ''errors'') then dict_get kvs ''errors''
                            else if truthy (dict_get kvs ''ok'') then PyList []
                            else PyList [PyStr ''JS compliance failed.'']),
                  details = d\<rparr>)"
proof (cases "strip (stderr p) \<noteq> [] \<and> truthy (dict_get kvs ''details'') \<and>
    \<not> is_dict (dict_get kvs ''details'')")
  case True
  then have "check_js env sp hp ns = Inl TypeError"
    using assms by (cases "dict_get kvs ''details''") (simp_all add: check_js_def Let_def)
  with True show ?thesis by simp
next
  case False
  then show ?thesis
    using assms
    by (cases "dict_get kvs ''details''") (auto simp: check_js_def Let_def str_list_def)
qed

theorem check_js_errors_field_witness:
  \<open>subprocess_run (js_platform (reply 1 ''{"ok": false}'' []) (PyDict [(''ok'', PyBool False)]))
      [''node'', ''--version''] True = Inr node_version \<and>
   subprocess_run (js_platform (reply 1 ''{"ok": false}'' []) (PyDict [(''ok'', PyBool False)]))
      [''node'', ''h.mjs'', ''--spec'', ''s.json'', ''--html'', ''a.html''] False =
      Inr (reply 1 ''{"ok": false}'' []) \<and>
   returncode (reply 1 ''{"ok": false}'' []) \<noteq> 2 \<and>
   strip (stdout (reply 1 ''{"ok": false}'' [])) \<noteq> [] \<and>
   json_loads (js_platform (reply 1 ''{"ok": false}'' []) (PyDict [(''ok'', PyBool False)]))
      (stdout (reply 1 ''{"ok": false}'' [])) = Inr (PyDict [(''ok'', PyBool False)]) \<and>
   (\<exists>d. check_js (js_platform (reply 1 ''{"ok": false}'' []) (PyDict [(''ok'', PyBool False)]))
      ''s.json'' ''a.html'' ''h.mjs'' =
      Inr \<lparr>ok = False, errors = PyList [PyStr ''JS compliance failed.''], details = d\<rparr>)\<close>
proof -
  have h1: \<open>subprocess_run (js_platform (reply 1 ''{"ok": false}'' []) (PyDict [(''ok'', PyBool False)]))
      [''node'', ''--version''] True = Inr node_version\<close>
    by code_simp
  have h2: \<open>subprocess_run (js_platform (reply 1 ''{"ok": false}'' []) (PyDict [(''ok'', PyBool False)]))
      [''node'', ''h.mjs'', ''--spec'', ''s.json'', ''--html'', ''a.html''] False =
      Inr (reply 1 ''{"ok": false}'' [])\<close>
    by code_simp
  have h3: \<open>returncode (reply 1 ''{"ok": false}'' []) \<noteq> 2\<close>
    by (simp add: reply_def)
  have h4: \<open>strip (stdout (reply 1 ''{"ok": false}'' [])) \<noteq> []\<close>
    by code_simp
  have h5: \<open>json_loads (js_platform (reply 1 ''{"ok": false}'' []) (PyDict [(''ok'', PyBool False)]))
      (stdout (reply 1 ''{"ok": false}'' [])) = Inr (PyDict [(''ok'', PyBool False)])\<close>
    by code_simp
  have h6: \<open>strip (stderr (reply 1 ''{"ok": false}'' [])) = []\<close>
    by code_simp
  from check_js_errors_field [OF h1 h2 h3 h4 h5] h1 h2 h3 h4 h5 h6 show ?thesis
    by (simp add: dict_get_def)
qed

subsection \<open>A failing result says why\<close>

text \<open>
  Claim C6, as stated, fails on the path of a failure that the checker reports itself:
  for the output \<^verbatim>\<open>{"ok": false, "errors": [""]}\<close> the result has \<open>ok\<close> false and an error
  list whose only string is empty.
\<close>

theorem failure_message_counterexample:
  \<open>check_js (js_platform (reply 1 ''{"ok": false, "errors": [""]}'' [])
       (PyDict [(''ok'', PyBool False), (''errors'', PyList [PyStr []])]))
     ''s.json'' ''a.html'' ''h.mjs'' =
     Inr \<lparr>ok = False, errors = PyList [PyStr []], details = PyDict []\<rparr> \<and>
   \<not> has_message (PyList [PyStr []])\<close>
  by code_simp

text \<open>
  Claim C6, amended. A failing result of \<^verbatim>\<open>check_html\<close> has an error list with a
  non-empty string in it. So has a failing result of \<^verbatim>\<open>check_js\<close> on every path where
  the harness writes the errors itself: runtime unavailable, launch failure, sentinel
  exit code, empty output, undecodable output, and a payload without a truthy
  \<open>errors\<close>. A truthy \<open>errors\<close> of the payload is returned as it is, whatever it
  contains.
\<close>

theorem failure_has_message:
  "(check_html env spec html_text = Inr r \<and> \<not> ok r \<longrightarrow> has_message (errors r)) \<and>
   (check_js env sp hp ns = Inr r' \<and> \<not> ok r' \<longrightarrow>
      has_message (errors r') \<or>
      (\<exists>p kvs. subprocess_run env [''node'', ns, ''--spec'', sp, ''--html'', hp] False = Inr p \<and>
         json_loads env (stdout p) = Inr (PyDict kvs) \<and> truthy (dict_get kvs ''errors'') \<and>
         errors r' = dict_get kvs ''errors''))"
proof (intro conjI impI)
  assume "check_html env spec html_text = Inr r \<and> \<not> ok r"
  then show "has_message (errors r)"
    by (auto simp: check_html_def str_list_def Let_def list_ex_iff
        split: sum.splits prod.splits if_splits)
next
  assume "check_js env sp hp ns = Inr r' \<and> \<not> ok r'"
  then show "has_message (errors r') \<or>
      (\<exists>p kvs. subprocess_run env [''node'', ns, ''--spec'', sp, ''--html'', hp] False = Inr p \<and>
         json_loads env (stdout p) = Inr (PyDict kvs) \<and> truthy (dict_get kvs ''errors'') \<and>
         errors r' = dict_get kvs ''errors'')"
    by (auto simp: check_js_def str_list_def Let_def split: sum.splits if_splits pyval.splits)
qed

theorem failure_has_message_witness:
  \<open>(\<exists>r. check_html (demo_platform (spec_requiring [''nav''] [] []) app_doc (reply 1 ''{"ok": false}'' [])
            (PyDict [(''ok'', PyBool False)]))
         (spec_requiring [''nav''] [] []) ''<html>'' = Inr r \<and> \<not> ok r \<and> has_message (errors r)) \<and>
   (\<exists>r. check_js (demo_platform (spec_requiring [''nav''] [] []) app_doc (reply 1 ''{"ok": false}'' [])
            (PyDict [(''ok'', PyBool False)]))
         ''s.json'' ''a.html'' ''h.mjs'' = Inr r \<and> \<not> ok r \<and> has_message (errors r))\<close>
proof -
  have h1: \<open>check_html (demo_platform (spec_requiring [''nav''] [] []) app_doc (reply 1 ''{"ok": false}'' [])
            (PyDict [(''ok'', PyBool False)]))
         (spec_requiring [''nav''] [] []) ''<html>'' =
       Inr \<lparr>ok = False, errors = PyList [PyStr ''Missing required id(s): nav''],
            details = PyDict
              [(''requiredIds'', PyDict [(''count'', PyInt 1), (''missing'', PyList [PyStr ''nav'']),
                                        (''duplicates'', PyList [])]),
               (''requiredSelectors'', PyDict [(''count'', PyInt 0), (''missing'', PyList []),
                                              (''unsupported'', PyList [])]),
               (''dataAttributes'', PyDict [(''enforced'', PyList []), (''missing'', PyList [])])]\<rparr>\<close>
    by code_simp
  have h2: \<open>check_js (demo_platform (spec_requiring [''nav''] [] []) app_doc (reply 1 ''{"ok": false}'' [])
            (PyDict [(''ok'', PyBool False)]))
         ''s.json'' ''a.html'' ''h.mjs'' =
       Inr \<lparr>ok = False, errors = PyList [PyStr ''JS compliance failed.''], details = PyDict []\<rparr>\<close>
    by code_simp
  from failure_has_message [of
      \<open>demo_platform (spec_requiring [''nav''] [] []) app_doc (reply 1 ''{"ok": false}'' [])
            (PyDict [(''ok'', PyBool False)])\<close>
      "spec_requiring [''nav''] [] []" "''<html>''"
      "\<lparr>ok = False, errors = PyList [PyStr ''Missing required id(s): nav''],
            details = PyDict
              [(''requiredIds'', PyDict [(''count'', PyInt 1), (''missing'', PyList [PyStr ''nav'']),
                                        (''duplicates'', PyList [])]),
               (''requiredSelectors'', PyDict [(''count'', PyInt 0), (''missing'', PyList []),
                                              (''unsupported'', PyList [])]),
               (''dataAttributes'', PyDict [(''enforced'', PyList []), (''missing'', PyList [])])]\<rparr>"
      "''s.json''" "''a.html''" "''h.mjs''"
      "\<lparr>ok = False, errors = PyList [PyStr ''JS compliance failed.''], details = PyDict []\<rparr>"]
    h1 h2
  show ?thesis by simp
qed

section \<open>The orchestrator\<close>

text \<open>
  Claim C3. When the spec file is read and its \<open>abi\<close> is not the string
  \<^verbatim>\<open>sfwa-abi-1\<close>, \<^verbatim>\<open>main\<close> ends with the harness error for an unsupported abi, and the
  list of checkers it has called is empty: neither \<^verbatim>\<open>check_html\<close> nor \<^verbatim>\<open>check_js\<close>
  runs. This holds for every platform, so whatever the document file, the parser and the
  external checker would do, and for every mode.
\<close>

theorem main_rejects_unsupported_abi:
  assumes "read_json env (arg_spec a) = Inr spec" and "abi spec \<noteq> PyStr ''sfwa-abi-1''"
  shows "main env a = ([], HarnessError (UnsupportedAbi (abi spec)))"
  using assms by (simp add: main_def)

theorem main_rejects_unsupported_abi_witness:
  \<open>read_json (demo_platform ((spec_requiring [''app''] [] [])\<lparr>abi := PyStr ''sfwa-abi-2''\<rparr>) app_doc
       (reply 0 ''{"ok": true}'' []) (PyDict [(''ok'', PyBool True)]))
     (arg_spec (demo_args ModeAll)) = Inr ((spec_requiring [''app''] [] [])\<lparr>abi := PyStr ''sfwa-abi-2''\<rparr>) \<and>
   abi ((spec_requiring [''app''] [] [])\<lparr>abi := PyStr ''sfwa-abi-2''\<rparr>) \<noteq> PyStr ''sfwa-abi-1'' \<and>
   main (demo_platform ((spec_requiring [''app''] [] [])\<lparr>abi := PyStr ''sfwa-abi-2''\<rparr>) app_doc
       (reply 0 ''{"ok": true}'' []) (PyDict [(''ok'', PyBool True)]))
     (demo_args ModeAll) = ([], HarnessError (UnsupportedAbi (PyStr ''sfwa-abi-2'')))\<close>
proof -
  have h1: \<open>read_json (demo_platform ((spec_requiring [''app''] [] [])\<lparr>abi := PyStr ''sfwa-abi-2''\<rparr>) app_doc
       (reply 0 ''{"ok": true}'' []) (PyDict [(''ok'', PyBool True)]))
     (arg_spec (demo_args ModeAll)) = Inr ((spec_requiring [''app''] [] [])\<lparr>abi := PyStr ''sfwa-abi-2''\<rparr>)\<close>
    by (simp add: read_json_def demo_platform_def table_platform_def lookup_or_def demo_args_def)
  have h2: \<open>abi ((spec_requiring [''app''] [] [])\<lparr>abi := PyStr ''sfwa-abi-2''\<rparr>) \<noteq> PyStr ''sfwa-abi-1''\<close>
    by simp
  from main_rejects_unsupported_abi [OF h1 h2] h1 h2 show ?thesis by simp
qed

end
